theory Spec2Isabelle
  imports Main
begin

section \<open>The share store of app.py\<close>

text \<open>
  The application keeps one SQLite table \<open>files\<close> and one flat directory \<open>uploads\<close>.
  A \<open>datetime\<close> is an integer count of microseconds (UTC); \<open>to_iso\<close> followed by
  \<open>from_iso\<close> gives the same instant back, so a row holds the instant itself. The table
  is the list of its rows in insertion order, the directory a map from file name to
  content. Each handler takes the state and returns its response with the new state;
  every \<open>utcnow()\<close> the handler calls is an argument.
\<close>

type_synonym time = int
type_synonym bytes = string

record file_row =
  row_id :: string
  stored_name :: string
  original_name :: string
  size_bytes :: nat
  mime :: "string option"
  created_at :: time
  expires_at :: "time option"
  one_time :: bool
  downloads :: nat

record state =
  files :: "file_row list"
  uploads :: "string \<rightharpoonup> bytes"

datatype response =
    Redirect_index string
  | Redirect_view string
  | Abort nat
  | Detail_page file_row bool
  | Send_file bytes string string
  | Recent_page "(string \<times> string \<times> nat) list"
  | Server_error

text \<open>
  \<open>Redirect_index m\<close> is the redirect to the upload form with the flashed message \<open>m\<close>,
  \<open>Redirect_view fid\<close> the redirect to \<open>/f/fid\<close>, \<open>Abort c\<close> is \<open>abort(c)\<close>,
  \<open>Detail_page row downloadable\<close> the detail page rendered from \<open>row\<close> (the expired
  banner and the disabled button are shown exactly when \<open>downloadable\<close> is false),
  \<open>Send_file content download_name mimetype\<close> the attachment, and \<open>Server_error\<close> an
  exception that leaves the handler.
\<close>

subsection \<open>SQL statements\<close>

definition select_by_id :: "file_row list \<Rightarrow> string \<Rightarrow> file_row option" where
  "select_by_id rows fid = List.find (\<lambda>r. row_id r = fid) rows"

definition delete_by_id :: "string \<Rightarrow> file_row list \<Rightarrow> file_row list" where
  "delete_by_id fid rows = filter (\<lambda>r. row_id r \<noteq> fid) rows"

definition increment_downloads :: "string \<Rightarrow> file_row list \<Rightarrow> file_row list" where
  "increment_downloads fid rows =
     map (\<lambda>r. if row_id r = fid then r\<lparr>downloads := downloads r + 1\<rparr> else r) rows"

text \<open>\<open>id\<close> is the primary key: an insert of a present id raises and adds nothing.\<close>

definition insert_row :: "file_row \<Rightarrow> file_row list \<Rightarrow> file_row list option" where
  "insert_row r rows =
     (if select_by_id rows (row_id r) \<noteq> None then None else Some (rows @ [r]))"

subsection \<open>Cleanup helpers\<close>

text \<open>
  Removing a file that exists is taken to succeed, so the \<open>finally\<close> of
  \<open>_delete_file_record\<close> is reached on the one path there is.
\<close>

definition delete_file_record :: "file_row \<Rightarrow> state \<Rightarrow> state" where
  "delete_file_record row st =
     (let st1 = (if uploads st (stored_name row) \<noteq> None
                 then st\<lparr>uploads := (uploads st)(stored_name row := None)\<rparr>
                 else st)
      in st1\<lparr>files := delete_by_id (row_id row) (files st1)\<rparr>)"

definition delete_row_only :: "string \<Rightarrow> state \<Rightarrow> state" where
  "delete_row_only fid st = st\<lparr>files := delete_by_id fid (files st)\<rparr>"

subsection \<open>Upload\<close>

text \<open>
  \<open>request.form.get("expires", type=int, default=24)\<close> gives the default when the field
  is absent and when \<open>int\<close> rejects its text.
\<close>

datatype form_field = Absent | Text_not_int | Text_int int

definition form_get_int :: "form_field \<Rightarrow> int \<Rightarrow> int" where
  "form_get_int v d = (case v of Absent \<Rightarrow> d | Text_not_int \<Rightarrow> d | Text_int n \<Rightarrow> n)"

definition timedelta_hours :: "int \<Rightarrow> time" where
  "timedelta_hours h = h * 3600000000"

text \<open>
  \<open>f.save\<close> either writes the whole content, or raises; when it raises it may leave
  nothing at the path (\<open>None\<close>) or a partial file.
\<close>

datatype save_outcome = Saved | Save_error "bytes option"

record upload_req =
  file_field :: "(string \<times> bytes) option"
  expires_field :: form_field
  mode_field :: "string option"

text \<open>
  What the handler draws from outside the request: the token of
  \<open>secrets.token_urlsafe(8)\<close>, how \<open>f.save\<close> ends, the clock read when the expiry is
  computed (line 299) and the clock read when the row is written (line 315).
\<close>

record upload_env =
  token :: string
  save_result :: save_outcome
  clock_expiry :: time
  clock_created :: time

text \<open>The library functions the handler calls on the file name.\<close>

record lib =
  secure_filename :: "string \<Rightarrow> string"
  splitext_ext :: "string \<Rightarrow> string"
  guess_type :: "string \<Rightarrow> string option"

definition upload :: "lib \<Rightarrow> upload_req \<Rightarrow> upload_env \<Rightarrow> state \<Rightarrow> response \<times> state" where
  "upload L req env st =
     (case file_field req of
        None \<Rightarrow> (Redirect_index ''No file selected.'', st)
      | Some (filename, content) \<Rightarrow>
          if filename = [] then (Redirect_index ''No file selected.'', st)
          else
            let original_name = secure_filename L filename;
                ext = splitext_ext L original_name;
                fid = token env;
                stored_name = fid @ ext
            in (case save_result env of
                  Save_error left \<Rightarrow>
                    (Server_error,
                     (case left of
                        None \<Rightarrow> st
                      | Some part \<Rightarrow> st\<lparr>uploads := (uploads st)(stored_name \<mapsto> part)\<rparr>))
                | Saved \<Rightarrow>
                    let st1 = st\<lparr>uploads := (uploads st)(stored_name \<mapsto> content)\<rparr>;
                        size_bytes = length content;
                        mime = guess_type L original_name;
                        hours = form_get_int (expires_field req) 24;
                        expires_at =
                          (if hours \<noteq> 0 \<and> hours > 0
                           then Some (clock_expiry env + timedelta_hours (min hours (24 * 7)))
                           else None);
                        one_time = (mode_field req = Some ''one'');
                        row = \<lparr>row_id = fid, stored_name = stored_name,
                               original_name = original_name, size_bytes = size_bytes,
                               mime = mime, created_at = clock_created env,
                               expires_at = expires_at, one_time = one_time,
                               downloads = 0\<rparr>
                    in (case insert_row row (files st1) of
                          None \<Rightarrow> (Server_error, st1)
                        | Some rows \<Rightarrow> (Redirect_view fid, st1\<lparr>files := rows\<rparr>))))"

subsection \<open>Detail view\<close>

definition view_file :: "string \<Rightarrow> time \<Rightarrow> state \<Rightarrow> response \<times> state" where
  "view_file fid now st =
     (case select_by_id (files st) fid of
        None \<Rightarrow> (Abort 404, st)
      | Some row \<Rightarrow>
          let expired = (case expires_at row of None \<Rightarrow> False | Some e \<Rightarrow> now > e)
          in if expired then (Detail_page row False, delete_file_record row st)
             else (Detail_page row True, st))"

subsection \<open>Download\<close>

text \<open>
  \<open>download\<close> is the handler up to its \<open>return resp\<close>; its third result is the row
  held by the \<open>_cleanup\<close> callback, when the handler registered one with
  \<open>resp.call_on_close\<close>. \<open>call_on_close\<close> is what that callback does once the response
  object is closed. The response of \<open>send_file\<close> is passed through directly: answering a
  GET, the server is handed the file wrapper and closes that, not the response object,
  so the registered callback does not run. \<open>download_request\<close> is the whole GET request.
\<close>

text \<open>\<open>row["mime"] or "application/octet-stream"\<close>: null and the empty text are falsy.\<close>

definition send_mimetype :: "string option \<Rightarrow> string" where
  "send_mimetype m =
     (case m of
        None \<Rightarrow> ''application/octet-stream''
      | Some t \<Rightarrow> if t = [] then ''application/octet-stream'' else t)"

definition download :: "string \<Rightarrow> time \<Rightarrow> state \<Rightarrow> response \<times> state \<times> file_row option" where
  "download fid now st =
     (case select_by_id (files st) fid of
        None \<Rightarrow> (Abort 404, st, None)
      | Some row \<Rightarrow>
          if (case expires_at row of None \<Rightarrow> False | Some e \<Rightarrow> now > e)
          then (Abort 410, delete_file_record row st, None)
          else
            (case uploads st (stored_name row) of
               None \<Rightarrow> (Abort 404, delete_row_only (row_id row) st, None)
             | Some content \<Rightarrow>
                 (Send_file content (original_name row) (send_mimetype (mime row)),
                  st\<lparr>files := increment_downloads fid (files st)\<rparr>,
                  if one_time row then Some row else None)))"

definition call_on_close :: "file_row option \<Rightarrow> state \<Rightarrow> state" where
  "call_on_close cleanup st =
     (case cleanup of None \<Rightarrow> st | Some row \<Rightarrow> delete_file_record row st)"

definition download_request :: "string \<Rightarrow> time \<Rightarrow> state \<Rightarrow> response \<times> state" where
  "download_request fid now st =
     (case download fid now st of (resp, st1, cleanup) \<Rightarrow> (resp, st1))"

subsection \<open>Recent list\<close>

text \<open>
  \<open>ORDER BY created_at DESC LIMIT 20\<close>. The ISO texts of UTC instants compare as the
  instants do. Rows with equal \<open>created_at\<close> stay in insertion order here; SQLite
  promises no order among them, and no theorem below depends on it.
\<close>

definition recent_rows :: "state \<Rightarrow> file_row list" where
  "recent_rows st = take 20 (sort_key (\<lambda>r. - created_at r) (files st))"

definition recent :: "state \<Rightarrow> response \<times> state" where
  "recent st =
     (Recent_page (map (\<lambda>r. (row_id r, original_name r, size_bytes r)) (recent_rows st)), st)"

subsection \<open>Requests\<close>

datatype request =
    Upload upload_req upload_env
  | View_file string time
  | Download string time
  | Recent

fun serve :: "lib \<Rightarrow> request \<Rightarrow> state \<Rightarrow> response \<times> state" where
  "serve L (Upload req env) st = upload L req env st"
| "serve L (View_file fid now) st = view_file fid now st"
| "serve L (Download fid now) st = download_request fid now st"
| "serve L Recent st = recent st"

fun run :: "lib \<Rightarrow> request list \<Rightarrow> state \<Rightarrow> response list \<times> state" where
  "run L [] st = ([], st)"
| "run L (rq # rqs) st =
     (case serve L rq st of
        (resp, st1) \<Rightarrow> (case run L rqs st1 of (resps, st2) \<Rightarrow> (resp # resps, st2)))"

text \<open>
  \<open>keeps_clear L fid name rq\<close>: the request is not an upload that draws the token
  \<open>fid\<close> again or saves its file under \<open>name\<close>.
\<close>

fun keeps_clear :: "lib \<Rightarrow> string \<Rightarrow> string \<Rightarrow> request \<Rightarrow> bool" where
  "keeps_clear L fid name (Upload req env) =
     (token env \<noteq> fid \<and>
      (case file_field req of
         None \<Rightarrow> True
       | Some (filename, content) \<Rightarrow>
           token env @ splitext_ext L (secure_filename L filename) \<noteq> name))"
| "keeps_clear L fid name rq = True"

fun about :: "string \<Rightarrow> request \<Rightarrow> bool" where
  "about fid (View_file f now) = (f = fid)"
| "about fid (Download f now) = (f = fid)"
| "about fid rq = False"




definition not_expired :: "file_row \<Rightarrow> time \<Rightarrow> bool" where
  "not_expired row now = (case expires_at row of None \<Rightarrow> True | Some e \<Rightarrow> \<not> now > e)"

definition downloads_of :: "state \<Rightarrow> string \<Rightarrow> nat option" where
  "downloads_of st fid = map_option downloads (select_by_id (files st) fid)"

subsection \<open>Example data\<close>

definition ex_lib :: lib where
  "ex_lib = \<lparr>secure_filename = (\<lambda>s. s), splitext_ext = (\<lambda>s. ''.txt''),
             guess_type = (\<lambda>s. Some ''text/plain'')\<rparr>"

definition ex_row :: file_row where
  "ex_row = \<lparr>row_id = ''a1'', stored_name = ''a1.txt'', original_name = ''n.txt'',
             size_bytes = 2, mime = Some ''text/plain'', created_at = 0,
             expires_at = Some 5, one_time = True, downloads = 0\<rparr>"

definition ex_state :: state where
  "ex_state = \<lparr>files = [ex_row], uploads = [''a1.txt'' \<mapsto> ''hi'']\<rparr>"

definition ex_req :: upload_req where
  "ex_req = \<lparr>file_field = Some (''n.txt'', ''hi''), expires_field = Text_int 1,
             mode_field = Some ''one''\<rparr>"

definition ex_env :: upload_env where
  "ex_env = \<lparr>token = ''t0'', save_result = Saved, clock_expiry = 7, clock_created = 8\<rparr>"

definition ex_uploaded_row :: file_row where
  "ex_uploaded_row =
     \<lparr>row_id = ''t0'', stored_name = ''t0.txt'', original_name = ''n.txt'',
      size_bytes = 2, mime = Some ''text/plain'', created_at = 8,
      expires_at = Some 3600000007, one_time = True, downloads = 0\<rparr>"

definition ex_gone :: state where
  "ex_gone = \<lparr>files = [ex_row], uploads = Map.empty\<rparr>"

definition ex_live :: state where
  "ex_live = \<lparr>files = [ex_row\<lparr>expires_at := None\<rparr>], uploads = [''a1.txt'' \<mapsto> ''hi'']\<rparr>"

definition ex_once :: state where
  "ex_once = \<lparr>files = [ex_row\<lparr>expires_at := None, downloads := 1\<rparr>],
              uploads = [''a1.txt'' \<mapsto> ''hi'']\<rparr>"


definition ex_two :: state where
  "ex_two = \<lparr>files = [ex_row, ex_uploaded_row], uploads = Map.empty\<rparr>"

section \<open>Lookup lemmas\<close>

lemma select_by_id_row_id: "select_by_id rows fid = Some r \<Longrightarrow> row_id r = fid"
  by (induction rows) (auto simp: select_by_id_def split: if_splits)

lemma select_by_id_append:
  "select_by_id (rows @ [r]) fid =
     (case select_by_id rows fid of
        None \<Rightarrow> if row_id r = fid then Some r else None
      | Some x \<Rightarrow> Some x)"
  by (induction rows) (auto simp: select_by_id_def)

lemma select_delete_same: "select_by_id (delete_by_id fid rows) fid = None"
  by (induction rows) (auto simp: select_by_id_def delete_by_id_def)


lemma select_delete_None:
  "select_by_id rows fid' = None \<Longrightarrow> select_by_id (delete_by_id fid rows) fid' = None"
  by (induction rows) (auto simp: select_by_id_def delete_by_id_def split: if_splits)

lemma select_increment:
  "select_by_id (increment_downloads fid rows) fid' =
     map_option (\<lambda>r. if fid' = fid then r\<lparr>downloads := downloads r + 1\<rparr> else r)
       (select_by_id rows fid')"
  by (induction rows) (auto simp: select_by_id_def increment_downloads_def)

section \<open>Upload: the expiry policy\<close>

text \<open>
  C2, as the code has it. An upload that stores its file and inserts its row (a file
  with a name, a save that succeeds, a fresh token) redirects to the detail view, and
  the new row has \<open>expires_at\<close> null when the hours are not positive, and otherwise the
  clock read at the expiry computation plus the hours, at most 168; more than 168 is
  clamped, not refused. \<open>created_at\<close> is a second reading of the clock, so
  \<open>expires_at\<close> is \<open>created_at\<close> plus the hours only when the two readings agree.
\<close>

theorem upload_expiry_policy:
  assumes "file_field req = Some (filename, content)" and "filename \<noteq> []"
    and "save_result env = Saved"
    and "select_by_id (files st) (token env) = None"
    and "hours = form_get_int (expires_field req) 24"
  shows "fst (upload L req env st) = Redirect_view (token env) \<and>
         (\<exists>row. select_by_id (files (snd (upload L req env st))) (token env) = Some row \<and>
            created_at row = clock_created env \<and>
            expires_at row =
              (if hours \<le> 0 then None
               else if hours \<le> 168 then Some (clock_expiry env + timedelta_hours hours)
               else Some (clock_expiry env + timedelta_hours 168)) \<and>
            (0 < hours \<and> clock_expiry env = clock_created env \<longrightarrow>
               expires_at row = Some (created_at row + timedelta_hours (min hours 168))))"
  using assms
  by (simp add: upload_def insert_row_def Let_def select_by_id_append min_def)

theorem upload_expiry_policy_witness:
  "fst (upload ex_lib ex_req ex_env ex_state) = Redirect_view ''t0'' \<and>
   (\<exists>row. select_by_id (files (snd (upload ex_lib ex_req ex_env ex_state))) ''t0'' = Some row \<and>
      created_at row = 8 \<and> expires_at row = Some (7 + timedelta_hours 1))"
  using upload_expiry_policy [of ex_req "''n.txt''" "''hi''" ex_env ex_state 1 ex_lib]
  by (simp add: ex_req_def ex_env_def ex_state_def ex_row_def select_by_id_def form_get_int_def)

text \<open>
  C2 as stated fails: one hour is requested, the clock reads 7 at the expiry computation
  and 8 when the row is written, and the stored \<open>expires_at\<close> is not \<open>created_at\<close> plus
  one hour.
\<close>

theorem upload_expiry_not_created_plus_hours:
  "select_by_id (files (snd (upload ex_lib ex_req ex_env ex_state))) ''t0''
     = Some ex_uploaded_row \<and>
   form_get_int (expires_field ex_req) 24 = 1 \<and>
   expires_at ex_uploaded_row
     \<noteq> Some (created_at ex_uploaded_row + timedelta_hours (min 1 168))"
  by (simp add: upload_def insert_row_def Let_def select_by_id_def ex_req_def ex_env_def
      ex_state_def ex_row_def ex_lib_def ex_uploaded_row_def form_get_int_def
      timedelta_hours_def)

text \<open>
  C9. When the hours the handler reads are zero or negative (a submitted negative
  number, or any value that is not truthy), the upload still succeeds and the row's
  \<open>expires_at\<close> is null.
\<close>

theorem upload_nonpositive_hours_never_expires:
  assumes "file_field req = Some (filename, content)" and "filename \<noteq> []"
    and "save_result env = Saved"
    and "select_by_id (files st) (token env) = None"
    and "form_get_int (expires_field req) 24 \<le> 0"
  shows "fst (upload L req env st) = Redirect_view (token env) \<and>
         map_option expires_at (select_by_id (files (snd (upload L req env st))) (token env))
           = Some None"
  using assms
  by (simp add: upload_def insert_row_def Let_def select_by_id_append)

theorem upload_nonpositive_hours_never_expires_witness:
  "fst (upload ex_lib (ex_req\<lparr>expires_field := Text_int (- 5)\<rparr>) ex_env ex_state)
     = Redirect_view ''t0'' \<and>
   map_option expires_at
     (select_by_id
        (files (snd (upload ex_lib (ex_req\<lparr>expires_field := Text_int (- 5)\<rparr>) ex_env ex_state)))
        ''t0'') = Some None"
  using upload_nonpositive_hours_never_expires
          [of "ex_req\<lparr>expires_field := Text_int (- 5)\<rparr>" "''n.txt''" "''hi''" ex_env ex_state ex_lib]
  by (simp add: ex_req_def ex_env_def ex_state_def ex_row_def select_by_id_def form_get_int_def)

section \<open>Expiry checks\<close>

text \<open>
  C10. The expiry test is the strict \<open>utcnow() > expires_at\<close>. A record whose
  \<open>expires_at\<close> equals the current time is shown as downloadable by the detail view and
  left in place; the download does not answer 410, and sends the file when it is there.
\<close>

theorem strict_expiry_comparison:
  assumes "select_by_id (files st) fid = Some row" and "expires_at row = Some now"
  shows "view_file fid now st = (Detail_page row True, st) \<and>
         fst (download fid now st) \<noteq> Abort 410 \<and>
         (\<forall>content. uploads st (stored_name row) = Some content \<longrightarrow>
            fst (download fid now st)
              = Send_file content (original_name row) (send_mimetype (mime row)))"
  using assms by (simp add: view_file_def download_def split: option.splits)

theorem strict_expiry_comparison_witness:
  "view_file ''a1'' 5 ex_state = (Detail_page ex_row True, ex_state) \<and>
   fst (download ''a1'' 5 ex_state) = Send_file ''hi'' ''n.txt'' ''text/plain''"
  using strict_expiry_comparison [of ex_state "''a1''" ex_row 5]
  by (simp add: ex_state_def ex_row_def select_by_id_def send_mimetype_def)

text \<open>
  C4, as the code has it. The download answers 404 when no row has the id, and when
  the row is not expired and its file is missing; it answers 410 when the row is
  expired, whether or not the file is there, because the expiry test comes first. The
  two codes differ.
\<close>

theorem download_status_codes:
  "(select_by_id (files st) fid = None \<longrightarrow> fst (download fid now st) = Abort 404) \<and>
   (select_by_id (files st) fid = Some row \<and> not_expired row now \<and>
      uploads st (stored_name row) = None \<longrightarrow> fst (download fid now st) = Abort 404) \<and>
   (select_by_id (files st) fid = Some row \<and> \<not> not_expired row now
      \<longrightarrow> fst (download fid now st) = Abort 410) \<and>
   Abort 404 \<noteq> Abort 410"
proof -
  have unknown: "fst (download fid now st) = Abort 404"
    if "select_by_id (files st) fid = None"
    using that by (simp add: download_def)
  have missing: "fst (download fid now st) = Abort 404"
    if "select_by_id (files st) fid = Some row" and "not_expired row now"
      and "uploads st (stored_name row) = None"
    using that by (simp add: download_def not_expired_def split: option.splits)
  have gone: "fst (download fid now st) = Abort 410"
    if "select_by_id (files st) fid = Some row" and "\<not> not_expired row now"
    using that by (simp add: download_def not_expired_def split: option.splits)
  show ?thesis
    using unknown missing gone by simp
qed

theorem download_status_codes_witness:
  "fst (download ''zz'' 10 ex_state) = Abort 404 \<and>
   fst (download ''a1'' 3 ex_gone) = Abort 404 \<and>
   fst (download ''a1'' 10 ex_state) = Abort 410"
  using download_status_codes [where st = ex_state and fid = "''zz''" and now = 10 and row = ex_row]
    download_status_codes [where st = ex_gone and fid = "''a1''" and now = 3 and row = ex_row]
    download_status_codes [where st = ex_state and fid = "''a1''" and now = 10 and row = ex_row]
  by (simp add: ex_state_def ex_gone_def ex_row_def select_by_id_def not_expired_def)

text \<open>
  C4 as stated fails: the row exists, its file is missing and it is expired; the
  claim's first case asks for 404 and the download answers 410.
\<close>

theorem download_expired_missing_file_is_410:
  "select_by_id (files ex_gone) ''a1'' = Some ex_row \<and>
   uploads ex_gone (stored_name ex_row) = None \<and>
   expires_at ex_row = Some 5 \<and>
   fst (download ''a1'' 10 ex_gone) = Abort 410 \<and>
   fst (download ''a1'' 10 ex_gone) \<noteq> Abort 404"
  by (simp add: download_def ex_gone_def ex_row_def select_by_id_def)

section \<open>Lazy cleanup\<close>

lemma delete_file_record_files:
  "files (delete_file_record row st) = delete_by_id (row_id row) (files st)"
  by (simp add: delete_file_record_def Let_def)

lemma delete_file_record_uploads:
  "uploads (delete_file_record row st) = (uploads st)(stored_name row := None)"
  by (auto simp: delete_file_record_def Let_def fun_eq_iff)

lemma view_file_absent:
  "select_by_id (files st) fid = None \<Longrightarrow> view_file fid now st = (Abort 404, st)"
  by (simp add: view_file_def)

lemma download_request_absent:
  "select_by_id (files st) fid = None \<Longrightarrow> download_request fid now st = (Abort 404, st)"
  by (simp add: download_request_def download_def call_on_close_def)

text \<open>
  C3, as the code has it. When the detail view finds the record expired it deletes the
  file and the row, and answers this caller with the detail page carrying the expired
  banner and the disabled button (not with 404); every later detail view or download of
  the id answers 404.
\<close>

theorem view_file_expired_cleanup:
  assumes "select_by_id (files st) fid = Some row"
    and "expires_at row = Some e" and "now > e"
    and "st' = delete_file_record row st"
  shows "view_file fid now st = (Detail_page row False, st') \<and>
         select_by_id (files st') fid = None \<and>
         uploads st' (stored_name row) = None \<and>
         (\<forall>t. view_file fid t st' = (Abort 404, st')) \<and>
         (\<forall>t. download_request fid t st' = (Abort 404, st'))"
proof -
  have rid: "row_id row = fid"
    using assms(1) by (rule select_by_id_row_id)
  have gone: "select_by_id (files st') fid = None"
    using rid assms(4) by (simp add: delete_file_record_files select_delete_same)
  have "view_file fid now st = (Detail_page row False, st')"
    using assms by (simp add: view_file_def)
  moreover have "uploads st' (stored_name row) = None"
    using assms(4) by (simp add: delete_file_record_uploads)
  ultimately show ?thesis
    using gone by (simp add: view_file_absent download_request_absent)
qed

theorem view_file_expired_cleanup_witness:
  "view_file ''a1'' 10 ex_state = (Detail_page ex_row False, delete_file_record ex_row ex_state) \<and>
   view_file ''a1'' 11 (delete_file_record ex_row ex_state)
     = (Abort 404, delete_file_record ex_row ex_state)"
  using view_file_expired_cleanup [of ex_state "''a1''" ex_row 5 10 "delete_file_record ex_row ex_state"]
  by (simp add: ex_state_def ex_row_def select_by_id_def)

text \<open>
  C3 as stated fails: the record is expired and the detail view does not answer 404.
\<close>

theorem view_file_expired_is_not_404:
  "select_by_id (files ex_state) ''a1'' = Some ex_row \<and>
   expires_at ex_row = Some 5 \<and> (10::int) > 5 \<and>
   fst (view_file ''a1'' 10 ex_state) \<noteq> Abort 404"
  by (simp add: view_file_def ex_state_def ex_row_def select_by_id_def)

text \<open>
  C5, as the code has it. The file is looked for by the download only: for a record
  that is not expired and whose file is missing, the download deletes the row and
  answers 404, with no error of its own; the detail view does not look at the file,
  shows the record as downloadable and keeps the row.
\<close>

theorem missing_file_purged_by_download:
  assumes "select_by_id (files st) fid = Some row"
    and "uploads st (stored_name row) = None"
    and "not_expired row now"
  shows "download_request fid now st = (Abort 404, delete_row_only fid st) \<and>
         select_by_id (files (delete_row_only fid st)) fid = None \<and>
         view_file fid now st = (Detail_page row True, st)"
proof -
  have rid: "row_id row = fid"
    using assms(1) by (rule select_by_id_row_id)
  have "\<not> (case expires_at row of None \<Rightarrow> False | Some e \<Rightarrow> now > e)"
    using assms(3) by (simp add: not_expired_def split: option.splits)
  then show ?thesis
    using assms(1,2) rid
    by (simp add: download_request_def download_def call_on_close_def view_file_def
        delete_row_only_def select_delete_same)
qed

theorem missing_file_purged_by_download_witness:
  "download_request ''a1'' 3 ex_gone = (Abort 404, delete_row_only ''a1'' ex_gone) \<and>
   select_by_id (files (delete_row_only ''a1'' ex_gone)) ''a1'' = None \<and>
   view_file ''a1'' 3 ex_gone = (Detail_page ex_row True, ex_gone)"
  using missing_file_purged_by_download [of ex_gone "''a1''" ex_row 3]
  by (simp add: ex_gone_def ex_row_def select_by_id_def not_expired_def)

text \<open>
  C5 as stated fails: the row exists and its file is missing, and the detail view
  neither answers 404 nor deletes the row.
\<close>

theorem view_file_ignores_missing_file:
  "select_by_id (files ex_gone) ''a1'' = Some ex_row \<and>
   uploads ex_gone (stored_name ex_row) = None \<and>
   not_expired ex_row 3 \<and>
   fst (view_file ''a1'' 3 ex_gone) \<noteq> Abort 404 \<and>
   select_by_id (files (snd (view_file ''a1'' 3 ex_gone))) ''a1'' = Some ex_row"
  by (simp add: view_file_def ex_gone_def ex_row_def select_by_id_def not_expired_def)

section \<open>Absent records and the one-time download\<close>

text \<open>
  An id with no row and a name with no file stay so under every request, except an
  upload that draws that id again or saves under that name.
\<close>

lemma delete_file_record_keeps_absent:
  "select_by_id (files st) fid = None \<Longrightarrow>
   select_by_id (files (delete_file_record row st)) fid = None"
  by (simp add: delete_file_record_files select_delete_None)

lemma delete_file_record_keeps_missing:
  "uploads st name = None \<Longrightarrow> uploads (delete_file_record row st) name = None"
  by (simp add: delete_file_record_uploads)

lemma select_increment_None:
  "select_by_id rows fid = None \<Longrightarrow> select_by_id (increment_downloads f rows) fid = None"
  by (simp add: select_increment)

lemma serve_keeps_absent:
  assumes "keeps_clear L fid name rq" and "select_by_id (files st) fid = None"
    and "uploads st name = None"
  shows "select_by_id (files (snd (serve L rq st))) fid = None \<and>
         uploads (snd (serve L rq st)) name = None \<and>
         (about fid rq \<longrightarrow> fst (serve L rq st) = Abort 404)"
proof (cases rq)
  case (Upload req env)
  then show ?thesis
    using assms
    by (auto simp: upload_def insert_row_def Let_def select_by_id_append
        split: option.splits save_outcome.splits)
next
  case (View_file f now)
  then show ?thesis
    using assms(2,3)
    by (auto simp: view_file_def delete_file_record_keeps_absent
        delete_file_record_keeps_missing split: option.splits)
next
  case (Download f now)
  then show ?thesis
    using assms(2,3)
    by (auto simp: download_request_def download_def call_on_close_def delete_row_only_def
        delete_file_record_keeps_absent delete_file_record_keeps_missing select_delete_None
        select_increment_None delete_file_record_files delete_file_record_uploads
        split: option.splits)
next
  case Recent
  then show ?thesis using assms(2,3) by (simp add: recent_def)
qed

lemma run_keeps_absent:
  assumes "list_all (keeps_clear L fid name) rqs"
    and "select_by_id (files st) fid = None" and "uploads st name = None"
  shows "select_by_id (files (snd (run L rqs st))) fid = None \<and>
         uploads (snd (run L rqs st)) name = None \<and>
         list_all2 (\<lambda>rq resp. about fid rq \<longrightarrow> resp = Abort 404) rqs (fst (run L rqs st))"
  using assms
proof (induction rqs arbitrary: st)
  case Nil
  then show ?case by simp
next
  case (Cons rq rqs)
  obtain resp st1 where s: "serve L rq st = (resp, st1)"
    by (cases "serve L rq st")
  have step: "select_by_id (files st1) fid = None \<and> uploads st1 name = None \<and>
              (about fid rq \<longrightarrow> resp = Abort 404)"
    using serve_keeps_absent [where rq = rq and st = st and fid = fid and name = name and L = L] Cons.prems s by simp
  have rest: "list_all (keeps_clear L fid name) rqs"
    using Cons.prems(1) by simp
  obtain resps st2 where r: "run L rqs st1 = (resps, st2)"
    by (cases "run L rqs st1")
  show ?case
    using Cons.IH [of st1, OF rest] step s r by simp
qed

text \<open>
  C1 fails on the code. The handler registers a callback that would delete the row and
  the file of a one-time record, but that callback does not run when a GET is answered.
  The one-time record of \<open>ex_live\<close> is downloaded at time 9: the file is sent and the
  counter is 1, the callback is registered, and after the request the row and the file
  are still there; the download at time 10 sends the file a second time and the counter
  is 2. Had the callback run, the row and the file would be gone.
\<close>

theorem one_time_download_not_consumed:
  "select_by_id (files ex_live) ''a1'' = Some (ex_row\<lparr>expires_at := None\<rparr>) \<and>
   one_time (ex_row\<lparr>expires_at := None\<rparr>) \<and>
   download ''a1'' 9 ex_live
     = (Send_file ''hi'' ''n.txt'' ''text/plain'', ex_once, Some (ex_row\<lparr>expires_at := None\<rparr>)) \<and>
   download_request ''a1'' 9 ex_live = (Send_file ''hi'' ''n.txt'' ''text/plain'', ex_once) \<and>
   downloads_of ex_once ''a1'' = Some 1 \<and>
   uploads ex_once ''a1.txt'' = Some ''hi'' \<and>
   fst (download_request ''a1'' 10 ex_once) = Send_file ''hi'' ''n.txt'' ''text/plain'' \<and>
   downloads_of (snd (download_request ''a1'' 10 ex_once)) ''a1'' = Some 2 \<and>
   select_by_id (files (call_on_close (Some (ex_row\<lparr>expires_at := None\<rparr>)) ex_once)) ''a1''
     = None \<and>
   uploads (call_on_close (Some (ex_row\<lparr>expires_at := None\<rparr>)) ex_once) ''a1.txt'' = None"
proof -
  have first: "download ''a1'' 9 ex_live
     = (Send_file ''hi'' ''n.txt'' ''text/plain'', ex_once, Some (ex_row\<lparr>expires_at := None\<rparr>))"
    by (simp add: download_def increment_downloads_def select_by_id_def send_mimetype_def
        ex_live_def ex_once_def ex_row_def)
  have second: "download ''a1'' 10 ex_once
     = (Send_file ''hi'' ''n.txt'' ''text/plain'',
        ex_once\<lparr>files := [ex_row\<lparr>expires_at := None, downloads := 2\<rparr>]\<rparr>,
        Some (ex_row\<lparr>expires_at := None, downloads := 1\<rparr>))"
    by (simp add: download_def increment_downloads_def select_by_id_def send_mimetype_def
        ex_once_def ex_row_def)
  have callback: "select_by_id
        (files (call_on_close (Some (ex_row\<lparr>expires_at := None\<rparr>)) ex_once)) ''a1'' = None \<and>
      uploads (call_on_close (Some (ex_row\<lparr>expires_at := None\<rparr>)) ex_once) ''a1.txt'' = None"
    by (simp add: call_on_close_def delete_file_record_def delete_by_id_def select_by_id_def
        Let_def ex_once_def ex_row_def)
  have kept: "downloads_of ex_once ''a1'' = Some 1 \<and> uploads ex_once ''a1.txt'' = Some ''hi''"
    by (simp add: downloads_of_def select_by_id_def ex_once_def ex_row_def)
  have start: "select_by_id (files ex_live) ''a1'' = Some (ex_row\<lparr>expires_at := None\<rparr>) \<and>
      one_time (ex_row\<lparr>expires_at := None\<rparr>)"
    by (simp add: select_by_id_def ex_live_def ex_row_def)
  have again: "downloads_of (snd (download_request ''a1'' 10 ex_once)) ''a1'' = Some 2"
    using second by (simp add: download_request_def downloads_of_def select_by_id_def ex_row_def)
  show ?thesis
    using first second callback kept start again by (simp add: download_request_def)
qed

section \<open>The download counter\<close>










section \<open>Upload: file before row\<close>

text \<open>
  C7. An upload either leaves the table as it was, or appends exactly one row, and then
  the save has succeeded and the file named by the row holds the whole uploaded
  content, whose length is the row's \<open>size_bytes\<close>. When the save fails no row is
  inserted, and so it is for every upload that does not end in the redirect to the
  detail view.
\<close>

theorem upload_row_after_file:
  "(files (snd (upload L req env st)) = files st \<or>
    (\<exists>filename content row.
       file_field req = Some (filename, content) \<and> save_result env = Saved \<and>
       fst (upload L req env st) = Redirect_view (token env) \<and>
       files (snd (upload L req env st)) = files st @ [row] \<and>
       row_id row = token env \<and> downloads row = 0 \<and>
       size_bytes row = length content \<and>
       uploads (snd (upload L req env st)) (stored_name row) = Some content)) \<and>
   (save_result env \<noteq> Saved \<longrightarrow> files (snd (upload L req env st)) = files st) \<and>
   (fst (upload L req env st) \<noteq> Redirect_view (token env) \<longrightarrow>
      files (snd (upload L req env st)) = files st)"
  by (auto simp: upload_def insert_row_def Let_def
      split: option.splits save_outcome.splits if_splits)

theorem upload_row_after_file_witness:
  "files (snd (upload ex_lib ex_req (ex_env\<lparr>save_result := Save_error (Some ''h'')\<rparr>) ex_state))
     = files ex_state \<and>
   fst (upload ex_lib ex_req (ex_env\<lparr>save_result := Save_error (Some ''h'')\<rparr>) ex_state)
     = Server_error \<and>
   files (snd (upload ex_lib ex_req ex_env ex_state)) = files ex_state @ [ex_uploaded_row] \<and>
   uploads (snd (upload ex_lib ex_req ex_env ex_state)) (stored_name ex_uploaded_row)
     = Some ''hi''"
proof -
  have ok: "upload ex_lib ex_req ex_env ex_state =
      (Redirect_view ''t0'',
       \<lparr>files = files ex_state @ [ex_uploaded_row],
        uploads = (uploads ex_state)(''t0.txt'' \<mapsto> ''hi'')\<rparr>)"
    by (simp add: upload_def insert_row_def Let_def select_by_id_def ex_req_def ex_env_def
        ex_state_def ex_row_def ex_lib_def ex_uploaded_row_def form_get_int_def
        timedelta_hours_def)
  have bad: "fst (upload ex_lib ex_req (ex_env\<lparr>save_result := Save_error (Some ''h'')\<rparr>) ex_state)
      = Server_error"
    by (simp add: upload_def Let_def ex_req_def ex_env_def ex_lib_def)
  show ?thesis
    using upload_row_after_file
        [of ex_lib ex_req "ex_env\<lparr>save_result := Save_error (Some ''h'')\<rparr>" ex_state]
      ok bad
    by (simp add: ex_uploaded_row_def)
qed

section \<open>Recent list\<close>

lemma insort_key_map_same_key:
  assumes "\<And>x. f (h x) = f x"
  shows "insort_key f (h x) (map h ys) = map h (insort_key f x ys)"
  by (induction ys) (simp_all add: assms)

lemma sort_key_map_same_key:
  assumes "\<And>x. f (h x) = f x"
  shows "sort_key f (map h xs) = map h (sort_key f xs)"
proof (induction xs)
  case Nil
  show ?case by simp
next
  case (Cons x xs)
  have "insort_key f (h x) (map h (sort_key f xs)) = map h (insort_key f x (sort_key f xs))"
    using assms by (rule insort_key_map_same_key)
  then show ?case using Cons by simp
qed

lemma recent_rows_sorted:
  "sorted_wrt (\<lambda>a b. created_at a \<ge> created_at b) (recent_rows st)"
proof -
  have "sorted (map (\<lambda>r. - created_at r) (sort_key (\<lambda>r. - created_at r) (files st)))"
    by (rule sorted_sort_key)
  then have "sorted_wrt (\<lambda>a b. created_at a \<ge> created_at b)
               (sort_key (\<lambda>r. - created_at r) (files st))"
    by (simp add: sorted_map)
  then show ?thesis
    unfolding recent_rows_def by (rule sorted_wrt_take)
qed

lemma recent_rows_all_when_small:
  "length (files st) \<le> 20 \<Longrightarrow> set (recent_rows st) = set (files st)"
  by (simp add: recent_rows_def)

lemma recent_rows_subset: "set (recent_rows st) \<subseteq> set (files st)"
  using set_take_subset [of 20 "sort_key (\<lambda>r. - created_at r) (files st)"]
  by (simp add: recent_rows_def)

lemma recent_rows_expiry_independent:
  "recent_rows (st\<lparr>files := map (\<lambda>r. r\<lparr>expires_at := g r\<rparr>) (files st)\<rparr>)
     = map (\<lambda>r. r\<lparr>expires_at := g r\<rparr>) (recent_rows st)"
proof -
  have "sort_key (\<lambda>r. - created_at r) (map (\<lambda>r. r\<lparr>expires_at := g r\<rparr>) (files st))
          = map (\<lambda>r. r\<lparr>expires_at := g r\<rparr>) (sort_key (\<lambda>r. - created_at r) (files st))"
    by (rule sort_key_map_same_key) simp
  then show ?thesis
    by (simp add: recent_rows_def take_map)
qed

text \<open>
  C8. The recent list leaves the state as it is, shows at most 20 rows of the table,
  newest \<open>created_at\<close> first, and does no expiry check: a table of at most 20 rows is
  shown whole, and changing the \<open>expires_at\<close> of the rows in any way changes nothing
  else in the rows listed, so rows past their expiry are listed like the others.
\<close>

theorem recent_is_pure_bounded_sorted:
  "snd (recent st) = st \<and>
   fst (recent st)
     = Recent_page (map (\<lambda>r. (row_id r, original_name r, size_bytes r)) (recent_rows st)) \<and>
   length (recent_rows st) \<le> 20 \<and>
   sorted_wrt (\<lambda>a b. created_at a \<ge> created_at b) (recent_rows st) \<and>
   set (recent_rows st) \<subseteq> set (files st) \<and>
   (length (files st) \<le> 20 \<longrightarrow> set (recent_rows st) = set (files st)) \<and>
   recent_rows (st\<lparr>files := map (\<lambda>r. r\<lparr>expires_at := g r\<rparr>) (files st)\<rparr>)
     = map (\<lambda>r. r\<lparr>expires_at := g r\<rparr>) (recent_rows st)"
  using recent_rows_sorted [of st] recent_rows_subset [of st]
    recent_rows_all_when_small [of st] recent_rows_expiry_independent [of g st]
  by (simp add: recent_def) (simp add: recent_rows_def)

theorem recent_is_pure_bounded_sorted_witness:
  "recent ex_two = (Recent_page [(''t0'', ''n.txt'', 2), (''a1'', ''n.txt'', 2)], ex_two) \<and>
   expires_at ex_row = Some 5 \<and> ex_row \<in> set (recent_rows ex_two)"
proof -
  have r: "recent_rows ex_two = [ex_uploaded_row, ex_row]"
    by (simp add: recent_rows_def ex_two_def ex_row_def ex_uploaded_row_def)
  show ?thesis
    using recent_is_pure_bounded_sorted [where st = ex_two and g = "\<lambda>r. None"] r
    by (simp add: recent_def) (simp add: ex_row_def ex_uploaded_row_def ex_two_def)
qed

end
